theory Spec2Isabelle
  imports Main "HOL-Library.Word"
begin

section \<open>The BCCSP-backed membership service provider (msp/mspimpl.go)\<close>

text \<open>
  The provider of \<^verbatim>\<open>msp/mspimpl.go\<close> is embedded function by function. Go's
  \<^verbatim>\<open>(value, error)\<close> returns and its run-time panics are values of the type
  \<open>result\<close>; the receiver \<^verbatim>\<open>msp *bccspmsp\<close> is passed in and, where the method
  writes to it, returned.

  The libraries the provider calls (\<^verbatim>\<open>encoding/pem\<close>, \<^verbatim>\<open>crypto/x509\<close>,
  \<^verbatim>\<open>encoding/json\<close>, \<^verbatim>\<open>encoding/asn1\<close>, the BCCSP crypto provider and its
  signer) are not part of the file. They are the fields of the record \<open>env\<close>, and every
  theorem holds for every such environment.
\<close>

subsection \<open>Data\<close>

type_synonym byte = "8 word"
type_synonym bytes = "byte list"

text \<open>The text of an error returned by a library call.\<close>
type_synonym lib_error = string

text \<open>\<^verbatim>\<open>pem.Block\<close>, as far as the provider reads it.\<close>
record pem_Block =
  Type :: string
  Bytes :: bytes

text \<open>
  \<^verbatim>\<open>x509.Certificate\<close>: the DER bytes it was parsed from and the fields a path
  validation looks at. The provider itself never reads a field.
\<close>
record Certificate =
  Raw :: bytes
  RawIssuer :: bytes
  RawSubject :: bytes
  NotBefore :: int
  NotAfter :: int

text \<open>\<^verbatim>\<open>bccsp.Key\<close>, an opaque handle.\<close>
datatype Key = KeyHandle bytes

text \<open>The first argument of \<^verbatim>\<open>KeyImport\<close> (an \<^verbatim>\<open>interface{}\<close>) and its options.\<close>
datatype raw = RawCert Certificate | RawBytes bytes
datatype KeyImportOpts = X509PublicKeyImportOpts bool | ECDSAPrivateKeyImportOpts bool

text \<open>\<^verbatim>\<open>signer.CryptoSigner\<close> after \<^verbatim>\<open>Init\<close>: bound to a key.\<close>
datatype CryptoSigner = CryptoSigner Key

text \<open>\<^verbatim>\<open>x509.CertPool\<close> and \<^verbatim>\<open>x509.VerifyOptions\<close> (no intermediates are ever set).\<close>
type_synonym CertPool = "Certificate list"

record VerifyOptions =
  Roots :: CertPool
  CurrentTime :: int

record IdentityIdentifier =
  Mspid :: string
  Id' :: string

text \<open>
  Modelled from the spec: the struct \<^verbatim>\<open>identity\<close> and its constructor
  \<^verbatim>\<open>newIdentity\<close> are declared outside the file. Spec, section 3: an Identity is
  \<^emph>\<open>identifier, certificate, public-key handle, back-reference to owning provider\<close>; the
  file reads the fields \<^verbatim>\<open>cert\<close> and \<^verbatim>\<open>pk\<close>. The back-reference is a pointer to the
  one provider of the model and is left out.
\<close>
record identity =
  ident :: IdentityIdentifier
  cert :: Certificate
  pk :: Key

text \<open>
  Modelled from the spec: \<^verbatim>\<open>signingidentity\<close> and \<^verbatim>\<open>newSigningIdentity\<close> are declared
  outside the file. Spec, section 3: a SigningIdentity is an \<^emph>\<open>Identity plus private-key
  handle, signer capability\<close>; the signer holds the imported private key.
\<close>
record signingidentity = identity +
  signer_of :: CryptoSigner

text \<open>
  A value of the interface \<^verbatim>\<open>Identity\<close>: nil, a \<^verbatim>\<open>*identity\<close>, a
  \<^verbatim>\<open>*signingidentity\<close>, or an implementation from elsewhere. A pointer stands for the
  struct it points to (the constructors never return a nil pointer).
\<close>
datatype Identity =
    NilIdentity
  | IdentityRef identity
  | SigningIdentityRef signingidentity
  | ForeignIdentity string

definition newIdentity :: "IdentityIdentifier \<Rightarrow> Certificate \<Rightarrow> Key \<Rightarrow> Identity" where
  "newIdentity i c k = IdentityRef \<lparr>ident = i, cert = c, pk = k\<rparr>"

definition newSigningIdentity ::
  "IdentityIdentifier \<Rightarrow> Certificate \<Rightarrow> Key \<Rightarrow> CryptoSigner \<Rightarrow> signingidentity" where
  "newSigningIdentity i c k s = \<lparr>ident = i, cert = c, pk = k, signer_of = s\<rparr>"

text \<open>The type assertion \<^verbatim>\<open>v.(*identity)\<close>; \<open>None\<close> is where Go panics.\<close>
fun as_identity :: "Identity \<Rightarrow> identity option" where
  "as_identity (IdentityRef i) = Some i"
| "as_identity _ = None"

text \<open>
  The configuration. \<^verbatim>\<open>FabricMSPConfig\<close>, \<^verbatim>\<open>SigningIdentityInfo\<close> and
  \<^verbatim>\<open>SerializedIdentity\<close> are declared outside the file; the fields are the ones the
  file reads (\<open>ProviderId\<close> is the spec's name of the envelope's first field, which the
  file never reads). A \<^verbatim>\<open>[]byte\<close> that the code compares with nil is a
  \<open>bytes option\<close>, \<open>None\<close> for nil.
\<close>
record KeyInfo =
  KeyMaterial :: bytes

record SigningIdentityInfo =
  PublicSigner :: "bytes option"
  PrivateSigner :: KeyInfo

record FabricMSPConfig =
  Name :: string
  RootCerts :: "bytes option list"
  Admins :: "bytes option list"
  SigningIdentity :: "SigningIdentityInfo option"

record MSPConfig =
  Config :: bytes

record SerializedIdentity =
  ProviderId :: string
  IdBytes :: bytes

text \<open>
  The struct \<^verbatim>\<open>bccspmsp\<close>. Its field \<^verbatim>\<open>bccsp\<close> is set once by
  \<^verbatim>\<open>NewBccspMsp\<close>, to a non-nil instance, and never written again: it is the
  \<open>KeyImport\<close> of the environment.
\<close>
record bccspmsp =
  trustedCerts :: "Identity list"
  signer :: "signingidentity option"
  admins :: "Identity list"
  name :: string

text \<open>The libraries.\<close>
record env =
  factory_GetDefault :: "lib_error + bool"
  pem_Decode :: "bytes \<Rightarrow> pem_Block option"
  pem_EncodeToMemory :: "pem_Block \<Rightarrow> bytes"
  x509_ParseCertificate :: "bytes \<Rightarrow> lib_error + Certificate"
  x509_Verify :: "Certificate \<Rightarrow> VerifyOptions \<Rightarrow> lib_error option"
  KeyImport :: "raw \<Rightarrow> KeyImportOpts \<Rightarrow> lib_error + Key"
  signer_Init :: "Key \<Rightarrow> lib_error option"
  json_Unmarshal :: "bytes \<Rightarrow> lib_error + FabricMSPConfig"
  asn1_Unmarshal :: "bytes \<Rightarrow> lib_error + SerializedIdentity \<times> bytes"
  asn1_Marshal :: "SerializedIdentity \<Rightarrow> bytes"

subsection \<open>Errors and results\<close>

text \<open>
  One constructor for each \<^verbatim>\<open>fmt.Errorf\<close> of the file, in the order of the file; the
  argument is the library's error that the message quotes.
\<close>
datatype error =
    FailedGettingDefaultBCCSP lib_error
  | NilBCCSPInstance
  | NilIdBytes
  | CouldNotDecodePemBytes
  | FailedToParseX509Cert lib_error
  | FailedToImportPublicKey lib_error
  | NilSidInfo
  | FailedToImportPrivateKey lib_error
  | FailedInitializingCryptoSigner lib_error
  | NilConfReference
  | FailedUnmarshallingConfig lib_error
  | NoDefaultSigningIdentity
  | IdentityNotValid lib_error
  | IdentityTypeNotRecognized
  | CouldNotDeserialize lib_error
  | CouldNotDecodePEMStructure
  | ParseCertificateFailed lib_error
  | FailedToImportCertPublicKey lib_error

datatype panic = NilPointerDereference | InterfaceConversion

datatype 'a result = Ok 'a | Err error | Panic panic

subsection \<open>The provider\<close>


definition getIdentityFromConf :: "env \<Rightarrow> bccspmsp \<Rightarrow> bytes option \<Rightarrow> Identity result" where
  "getIdentityFromConf env msp idBytes =
     (case idBytes of
        None \<Rightarrow> Err NilIdBytes
      | Some b \<Rightarrow>
          (case pem_Decode env b of
             None \<Rightarrow> Err CouldNotDecodePemBytes
           | Some pemCert \<Rightarrow>
               (case x509_ParseCertificate env (Bytes pemCert) of
                  Inl err \<Rightarrow> Err (FailedToParseX509Cert err)
                | Inr c \<Rightarrow>
                    (case KeyImport env (RawCert c) (X509PublicKeyImportOpts True) of
                       Inl err \<Rightarrow> Err (FailedToImportPublicKey err)
                     | Inr certPubK \<Rightarrow>
                         Ok (newIdentity \<lparr>Mspid = name msp, Id' = ''IDENTITY''\<rparr>
                               c certPubK)))))"

text \<open>
  \<^verbatim>\<open>pemKey.Bytes\<close> is read without a nil check: when \<^verbatim>\<open>pem.Decode\<close> finds no
  block, the read dereferences a nil pointer.
\<close>
definition getSigningIdentityFromConf ::
  "env \<Rightarrow> bccspmsp \<Rightarrow> SigningIdentityInfo option \<Rightarrow> signingidentity result" where
  "getSigningIdentityFromConf env msp sidInfo =
     (case sidInfo of
        None \<Rightarrow> Err NilSidInfo
      | Some si \<Rightarrow>
          (case getIdentityFromConf env msp (PublicSigner si) of
             Err err \<Rightarrow> Err err
           | Panic p \<Rightarrow> Panic p
           | Ok idPub \<Rightarrow>
               (case pem_Decode env (KeyMaterial (PrivateSigner si)) of
                  None \<Rightarrow> Panic NilPointerDereference
                | Some pemKey \<Rightarrow>
                    (case KeyImport env (RawBytes (Bytes pemKey))
                            (ECDSAPrivateKeyImportOpts True) of
                       Inl err \<Rightarrow> Err (FailedToImportPrivateKey err)
                     | Inr key \<Rightarrow>
                         (case signer_Init env key of
                            Some err \<Rightarrow> Err (FailedInitializingCryptoSigner err)
                          | None \<Rightarrow>
                              (case as_identity idPub of
                                 None \<Rightarrow> Panic InterfaceConversion
                               | Some i \<Rightarrow>
                                   Ok (newSigningIdentity
                                         \<lparr>Mspid = name msp, Id' = ''DEFAULT''\<rparr>
                                         (cert i) (pk i) (CryptoSigner key))))))))"

text \<open>
  The two loops of \<^verbatim>\<open>Setup\<close>: \<open>i\<close> is the index of the range loop, the list is
  what is left of the range.
\<close>
fun Setup_admins :: "env \<Rightarrow> bccspmsp \<Rightarrow> nat \<Rightarrow> bytes option list \<Rightarrow> bccspmsp \<times> unit result" where
  "Setup_admins env msp i [] = (msp, Ok ())"
| "Setup_admins env msp i (admCert # rest) =
     (case getIdentityFromConf env msp admCert of
        Err err \<Rightarrow> (msp, Err err)
      | Panic p \<Rightarrow> (msp, Panic p)
      | Ok idv \<Rightarrow> Setup_admins env (msp\<lparr>admins := (admins msp)[i := idv]\<rparr>) (Suc i) rest)"

fun Setup_trustedCerts ::
  "env \<Rightarrow> bccspmsp \<Rightarrow> nat \<Rightarrow> bytes option list \<Rightarrow> bccspmsp \<times> unit result" where
  "Setup_trustedCerts env msp i [] = (msp, Ok ())"
| "Setup_trustedCerts env msp i (trustedCert # rest) =
     (case getIdentityFromConf env msp trustedCert of
        Err err \<Rightarrow> (msp, Err err)
      | Panic p \<Rightarrow> (msp, Panic p)
      | Ok idv \<Rightarrow>
          Setup_trustedCerts env (msp\<lparr>trustedCerts := (trustedCerts msp)[i := idv]\<rparr>)
            (Suc i) rest)"

text \<open>The last step of \<^verbatim>\<open>Setup\<close>: the signer, if the configuration has one.\<close>
definition Setup_signer :: "env \<Rightarrow> bccspmsp \<Rightarrow> FabricMSPConfig \<Rightarrow> bccspmsp \<times> unit result" where
  "Setup_signer env msp conf =
     (case SigningIdentity conf of
        None \<Rightarrow> (msp, Ok ())
      | Some si \<Rightarrow>
          (case getSigningIdentityFromConf env msp (Some si) of
             Err err \<Rightarrow> (msp, Err err)
           | Panic p \<Rightarrow> (msp, Panic p)
           | Ok sid \<Rightarrow> (msp\<lparr>signer := Some sid\<rparr>, Ok ())))"

definition Setup :: "env \<Rightarrow> bccspmsp \<Rightarrow> MSPConfig option \<Rightarrow> bccspmsp \<times> unit result" where
  "Setup env msp conf1 =
     (case conf1 of
        None \<Rightarrow> (msp, Err NilConfReference)
      | Some c1 \<Rightarrow>
          (case json_Unmarshal env (Config c1) of
             Inl err \<Rightarrow> (msp, Err (FailedUnmarshallingConfig err))
           | Inr conf \<Rightarrow>
               (let msp1 = msp\<lparr>name := Name conf\<rparr>;
                    msp2 = msp1\<lparr>admins := replicate (length (Admins conf)) NilIdentity\<rparr>
                in case Setup_admins env msp2 0 (Admins conf) of
                     (msp3, Err err) \<Rightarrow> (msp3, Err err)
                   | (msp3, Panic p) \<Rightarrow> (msp3, Panic p)
                   | (msp3, Ok u) \<Rightarrow>
                       (let msp4 = msp3\<lparr>trustedCerts :=
                                          replicate (length (RootCerts conf)) NilIdentity\<rparr>
                        in case Setup_trustedCerts env msp4 0 (RootCerts conf) of
                             (msp5, Err err) \<Rightarrow> (msp5, Err err)
                           | (msp5, Panic p) \<Rightarrow> (msp5, Panic p)
                           | (msp5, Ok u) \<Rightarrow> Setup_signer env msp5 conf))))"

definition Reconfig :: "bccspmsp \<Rightarrow> bytes \<Rightarrow> unit result" where
  "Reconfig msp config = Ok ()"

definition GetIdentifier :: "bccspmsp \<Rightarrow> string result" where
  "GetIdentifier msp = Ok (name msp)"


text \<open>\<^verbatim>\<open>return nil, nil\<close>: the pair of the signing identity and the error.\<close>
definition GetSigningIdentity ::
  "bccspmsp \<Rightarrow> IdentityIdentifier option \<Rightarrow> signingidentity option \<times> error option" where
  "GetSigningIdentity msp identifier = (None, None)"

text \<open>\<^verbatim>\<open>x509.NewCertPool\<close> and \<^verbatim>\<open>CertPool.AddCert\<close> (a certificate is added once).\<close>
definition NewCertPool :: CertPool where
  "NewCertPool = []"

definition AddCert :: "CertPool \<Rightarrow> Certificate \<Rightarrow> CertPool" where
  "AddCert s c = (if c \<in> set s then s else s @ [c])"

text \<open>The loop of \<^verbatim>\<open>Validate\<close> over \<^verbatim>\<open>msp.trustedCerts\<close>.\<close>
fun Validate_roots :: "Identity list \<Rightarrow> CertPool \<Rightarrow> CertPool result" where
  "Validate_roots [] roots = Ok roots"
| "Validate_roots (v # rest) roots =
     (case as_identity v of
        None \<Rightarrow> Panic InterfaceConversion
      | Some i \<Rightarrow> Validate_roots rest (AddCert roots (cert i)))"

text \<open>\<open>now\<close> is what \<^verbatim>\<open>time.Now()\<close> returns in this call.\<close>
definition Validate :: "env \<Rightarrow> int \<Rightarrow> bccspmsp \<Rightarrow> Identity \<Rightarrow> unit result" where
  "Validate env now msp idv =
     (case idv of
        IdentityRef i \<Rightarrow>
          (case Validate_roots (trustedCerts msp) NewCertPool of
             Err err \<Rightarrow> Err err
           | Panic p \<Rightarrow> Panic p
           | Ok roots \<Rightarrow>
               (case x509_Verify env (cert i) \<lparr>Roots = roots, CurrentTime = now\<rparr> of
                  Some err \<Rightarrow> Err (IdentityNotValid err)
                | None \<Rightarrow> Ok ()))
      | _ \<Rightarrow> Err IdentityTypeNotRecognized)"

definition DeserializeIdentity :: "env \<Rightarrow> bccspmsp \<Rightarrow> bytes \<Rightarrow> Identity result" where
  "DeserializeIdentity env msp serializedID =
     (case asn1_Unmarshal env serializedID of
        Inl err \<Rightarrow> Err (CouldNotDeserialize err)
      | Inr (sId, rest) \<Rightarrow>
          (case pem_Decode env (IdBytes sId) of
             None \<Rightarrow> Err CouldNotDecodePEMStructure
           | Some bl \<Rightarrow>
               (case x509_ParseCertificate env (Bytes bl) of
                  Inl err \<Rightarrow> Err (ParseCertificateFailed err)
                | Inr c \<Rightarrow>
                    (case KeyImport env (RawCert c) (X509PublicKeyImportOpts True) of
                       Inl err \<Rightarrow> Err (FailedToImportCertPublicKey err)
                     | Inr pub \<Rightarrow>
                         Ok (newIdentity \<lparr>Mspid = name msp, Id' = ''DEFAULT''\<rparr> c pub)))))"

text \<open>
  Modelled from the spec: \<^verbatim>\<open>Serialize\<close> is a method of \<^verbatim>\<open>identity\<close>, declared
  outside the file. Spec, section 4.4: \<^emph>\<open>serialize(identity) -> bytes produces a
  structured, self-describing, tagged-field encoding of {providerId, PEM(certificate)}
  (e.g., an ASN.1 sequence of a string and an octet string)\<close>.
\<close>
definition Serialize :: "env \<Rightarrow> identity \<Rightarrow> bytes" where
  "Serialize env i =
     asn1_Marshal env
       \<lparr>ProviderId = Mspid (ident i),
        IdBytes = pem_EncodeToMemory env \<lparr>Type = ''CERTIFICATE'', Bytes = Raw (cert i)\<rparr>\<rparr>"

subsection \<open>What a range loop of Setup leaves behind\<close>

text \<open>
  \<open>get\<close> is the call \<^verbatim>\<open>msp.getIdentityFromConf\<close> of the loop body. \<open>slots get cs\<close> is
  the slice after the loop over \<open>cs\<close>: the identities of the entries before the first
  one that fails, then the nil interfaces that \<^verbatim>\<open>make\<close> put there.
  \<open>first_failure get cs\<close> is what that first failing call returned.
\<close>

fun is_Ok :: "'a result \<Rightarrow> bool" where
  "is_Ok (Ok x) = True"
| "is_Ok _ = False"

fun built :: "Identity result \<Rightarrow> Identity" where
  "built (Ok idv) = idv"
| "built _ = NilIdentity"

definition slots :: "(bytes option \<Rightarrow> Identity result) \<Rightarrow> bytes option list \<Rightarrow> Identity list" where
  "slots get cs =
     map (\<lambda>c. built (get c)) (takeWhile (\<lambda>c. is_Ok (get c)) cs)
       @ replicate (length (dropWhile (\<lambda>c. is_Ok (get c)) cs)) NilIdentity"

definition first_failure ::
  "(bytes option \<Rightarrow> Identity result) \<Rightarrow> bytes option list \<Rightarrow> unit result" where
  "first_failure get cs =
     (case dropWhile (\<lambda>c. is_Ok (get c)) cs of
        [] \<Rightarrow> Ok ()
      | c # rest \<Rightarrow> (case get c of Ok idv \<Rightarrow> Ok () | Err err \<Rightarrow> Err err | Panic p \<Rightarrow> Panic p))"


text \<open>The trust store holds nothing but identities that the provider built.\<close>
definition trust_store_built :: "bccspmsp \<Rightarrow> bool" where
  "trust_store_built msp = list_all (\<lambda>v. as_identity v \<noteq> None) (trustedCerts msp)"


subsection \<open>Laws of the codecs\<close>

text \<open>
  What the round trip asks of the libraries, each at one value: unmarshalling a
  marshalled envelope gives the envelope back, decoding an encoded PEM block gives its
  payload back, and a parsed certificate keeps the DER bytes in \<^verbatim>\<open>Raw\<close>.
\<close>
definition asn1_roundtrip :: "env \<Rightarrow> SerializedIdentity \<Rightarrow> bool" where
  "asn1_roundtrip env s =
     (case asn1_Unmarshal env (asn1_Marshal env s) of
        Inl err \<Rightarrow> False
      | Inr (s', rest) \<Rightarrow> s' = s)"

definition pem_roundtrip :: "env \<Rightarrow> pem_Block \<Rightarrow> bool" where
  "pem_roundtrip env blk =
     (case pem_Decode env (pem_EncodeToMemory env blk) of
        None \<Rightarrow> False
      | Some b \<Rightarrow> Bytes b = Bytes blk)"

definition parse_keeps_Raw :: "env \<Rightarrow> bytes \<Rightarrow> bool" where
  "parse_keeps_Raw env der =
     (case x509_ParseCertificate env der of
        Inl err \<Rightarrow> True
      | Inr c \<Rightarrow> Raw c = der)"

subsection \<open>Stand-ins for the libraries\<close>

text \<open>
  A small environment in which the definitions can be run. A PEM block is its payload
  behind one armour byte \<open>0x2D\<close>; a certificate is five bytes, the tag \<open>0x30\<close>, issuer,
  subject, first and last second of validity; an envelope is the tag \<open>0x30\<close>, the length
  of the provider's identifier, the identifier, the PEM bytes; a configuration is one
  of four fixed documents. The stand-ins give the general theorems a concrete instance
  and play no part in their proofs.
\<close>

definition test_pem_Decode :: "bytes \<Rightarrow> pem_Block option" where
  "test_pem_Decode b =
     (case b of
        [] \<Rightarrow> None
      | t # r \<Rightarrow> if t = 0x2D then Some \<lparr>Type = ''CERTIFICATE'', Bytes = r\<rparr> else None)"

definition test_pem_EncodeToMemory :: "pem_Block \<Rightarrow> bytes" where
  "test_pem_EncodeToMemory blk = 0x2D # Bytes blk"

definition test_ParseCertificate :: "bytes \<Rightarrow> lib_error + Certificate" where
  "test_ParseCertificate der =
     (case der of
        [t, iss, sub, nb, na] \<Rightarrow>
          if t = 0x30
          then Inr \<lparr>Raw = der, RawIssuer = [iss], RawSubject = [sub],
                    NotBefore = uint nb, NotAfter = uint na\<rparr>
          else Inl ''asn1: structure error''
      | _ \<Rightarrow> Inl ''asn1: syntax error'')"

definition test_Verify :: "Certificate \<Rightarrow> VerifyOptions \<Rightarrow> lib_error option" where
  "test_Verify c opts =
     (if CurrentTime opts < NotBefore c \<or> NotAfter c < CurrentTime opts
      then Some ''x509: certificate has expired or is not yet valid''
      else if list_ex (\<lambda>r. RawSubject r = RawIssuer c \<and> NotBefore r \<le> CurrentTime opts
                             \<and> CurrentTime opts \<le> NotAfter r) (Roots opts)
      then None
      else Some ''x509: certificate signed by unknown authority'')"

definition test_KeyImport :: "raw \<Rightarrow> KeyImportOpts \<Rightarrow> lib_error + Key" where
  "test_KeyImport r opts =
     (case r of
        RawCert c \<Rightarrow> Inr (KeyHandle (RawSubject c))
      | RawBytes b \<Rightarrow> if b = [] then Inl ''Invalid raw'' else Inr (KeyHandle b))"

definition test_asn1_Marshal :: "SerializedIdentity \<Rightarrow> bytes" where
  "test_asn1_Marshal s =
     0x30 # of_nat (length (ProviderId s)) # map of_char (ProviderId s) @ IdBytes s"

definition test_asn1_Unmarshal :: "bytes \<Rightarrow> lib_error + SerializedIdentity \<times> bytes" where
  "test_asn1_Unmarshal b =
     (case b of
        t # n # r \<Rightarrow>
          if t = 0x30 \<and> unat n \<le> length r
          then Inr (\<lparr>ProviderId = map (\<lambda>w. char_of (unat w)) (take (unat n) r),
                      IdBytes = drop (unat n) r\<rparr>, [])
          else Inl ''asn1: structure error''
      | _ \<Rightarrow> Inl ''asn1: syntax error'')"

text \<open>Certificates: a root, valid from 10 to 90, and a leaf issued by it.\<close>
definition rootDER :: bytes where
  "rootDER = [0x30, 1, 1, 10, 90]"

definition leafDER :: bytes where
  "leafDER = [0x30, 1, 2, 20, 80]"

definition rootPEM :: bytes where
  "rootPEM = 0x2D # rootDER"

definition leafPEM :: bytes where
  "leafPEM = 0x2D # leafDER"

definition badPEM :: bytes where
  "badPEM = [0x78, 0x78]"

definition keyPEM :: bytes where
  "keyPEM = [0x2D, 7, 7]"

text \<open>
  Four configurations: one with an admin, a good and a malformed root and no signer;
  one with an admin, a root and a signer whose private key is not PEM; one with an
  admin, a root and a well-formed signer; one with an admin, a root and no signer. They
  are the documents \<open>[1]\<close>, \<open>[2]\<close>, \<open>[3]\<close> and \<open>[4]\<close>.
\<close>
definition config_bad_root :: FabricMSPConfig where
  "config_bad_root =
     \<lparr>Name = ''org1'', RootCerts = [Some rootPEM, Some badPEM], Admins = [Some leafPEM],
      SigningIdentity = None\<rparr>"

definition config_bad_key :: FabricMSPConfig where
  "config_bad_key =
     \<lparr>Name = ''org1'', RootCerts = [Some rootPEM], Admins = [Some leafPEM],
      SigningIdentity =
        Some \<lparr>PublicSigner = Some leafPEM, PrivateSigner = \<lparr>KeyMaterial = badPEM\<rparr>\<rparr>\<rparr>"

definition config_good :: FabricMSPConfig where
  "config_good =
     \<lparr>Name = ''org1'', RootCerts = [Some rootPEM], Admins = [Some leafPEM],
      SigningIdentity =
        Some \<lparr>PublicSigner = Some leafPEM, PrivateSigner = \<lparr>KeyMaterial = keyPEM\<rparr>\<rparr>\<rparr>"

definition config_no_signer :: FabricMSPConfig where
  "config_no_signer =
     \<lparr>Name = ''org1'', RootCerts = [Some rootPEM], Admins = [Some leafPEM],
      SigningIdentity = None\<rparr>"

definition test_json_Unmarshal :: "bytes \<Rightarrow> lib_error + FabricMSPConfig" where
  "test_json_Unmarshal b =
     (if b = [1] then Inr config_bad_root
      else if b = [2] then Inr config_bad_key
      else if b = [3] then Inr config_good
      else if b = [4] then Inr config_no_signer
      else Inl ''invalid character'')"

definition test_env :: env where
  "test_env =
     \<lparr>factory_GetDefault = Inr True,
      pem_Decode = test_pem_Decode,
      pem_EncodeToMemory = test_pem_EncodeToMemory,
      x509_ParseCertificate = test_ParseCertificate,
      x509_Verify = test_Verify,
      KeyImport = test_KeyImport,
      signer_Init = (\<lambda>k. None),
      json_Unmarshal = test_json_Unmarshal,
      asn1_Unmarshal = test_asn1_Unmarshal,
      asn1_Marshal = test_asn1_Marshal\<rparr>"

text \<open>The provider as \<^verbatim>\<open>NewBccspMsp\<close> returns it.\<close>
definition theMsp :: bccspmsp where
  "theMsp = \<lparr>trustedCerts = [], signer = None, admins = [], name = ''''\<rparr>"

text \<open>The identities and certificates the stand-ins make of the two certificates.\<close>
definition rootCert :: Certificate where
  "rootCert = \<lparr>Raw = rootDER, RawIssuer = [1], RawSubject = [1], NotBefore = 10, NotAfter = 90\<rparr>"

definition leafCert :: Certificate where
  "leafCert = \<lparr>Raw = leafDER, RawIssuer = [1], RawSubject = [2], NotBefore = 20, NotAfter = 80\<rparr>"

definition rootIdentity :: "string \<Rightarrow> identity" where
  "rootIdentity n =
     \<lparr>ident = \<lparr>Mspid = n, Id' = ''IDENTITY''\<rparr>, cert = rootCert, pk = KeyHandle [1]\<rparr>"

definition leafIdentity :: "string \<Rightarrow> identity" where
  "leafIdentity n =
     \<lparr>ident = \<lparr>Mspid = n, Id' = ''IDENTITY''\<rparr>, cert = leafCert, pk = KeyHandle [2]\<rparr>"

definition leafSigner :: SigningIdentityInfo where
  "leafSigner = \<lparr>PublicSigner = Some leafPEM, PrivateSigner = \<lparr>KeyMaterial = keyPEM\<rparr>\<rparr>"

definition leafSigningIdentity :: signingidentity where
  "leafSigningIdentity =
     \<lparr>ident = \<lparr>Mspid = ''org1'', Id' = ''DEFAULT''\<rparr>, cert = leafCert, pk = KeyHandle [2],
      signer_of = CryptoSigner (KeyHandle [7, 7])\<rparr>"

text \<open>The definitions of the stand-ins, for running them.\<close>
lemmas test_defs =
  test_env_def test_pem_Decode_def test_pem_EncodeToMemory_def test_ParseCertificate_def
  test_Verify_def test_KeyImport_def test_asn1_Marshal_def test_asn1_Unmarshal_def
  test_json_Unmarshal_def rootDER_def leafDER_def rootPEM_def leafPEM_def badPEM_def
  keyPEM_def config_bad_root_def config_bad_key_def config_good_def
  config_no_signer_def

section \<open>The identity factory\<close>

lemma getIdentityFromConf_name:
  "name msp' = name msp \<Longrightarrow> getIdentityFromConf env msp' = getIdentityFromConf env msp"
  by (rule ext) (simp add: getIdentityFromConf_def split: option.split sum.split)

lemma getIdentityFromConf_not_Panic: "getIdentityFromConf env msp c \<noteq> Panic p"
  by (simp add: getIdentityFromConf_def split: option.split sum.split)

lemma getIdentityFromConf_Ok:
  assumes "getIdentityFromConf env msp c = Ok idv"
  shows "\<exists>i. idv = IdentityRef i \<and> ident i = \<lparr>Mspid = name msp, Id' = ''IDENTITY''\<rparr>"
  using assms
  by (auto simp: getIdentityFromConf_def newIdentity_def split: option.splits sum.splits)

section \<open>Setup\<close>

lemma slots_Nil: "slots get [] = []"
  by (simp add: slots_def)

lemma slots_Cons:
  "slots get (c # cs) =
     (if is_Ok (get c) then built (get c) # slots get cs
      else replicate (Suc (length cs)) NilIdentity)"
  by (simp add: slots_def)

lemma length_slots: "length (slots get cs) = length cs"
proof -
  have "length (takeWhile (\<lambda>c. is_Ok (get c)) cs) + length (dropWhile (\<lambda>c. is_Ok (get c)) cs)
          = length cs"
    by (metis length_append takeWhile_dropWhile_id)
  then show ?thesis by (simp add: slots_def)
qed

lemma first_failure_Nil: "first_failure get [] = Ok ()"
  by (simp add: first_failure_def)

lemma first_failure_Cons:
  "first_failure get (c # cs) =
     (case get c of Ok idv \<Rightarrow> first_failure get cs | Err err \<Rightarrow> Err err | Panic p \<Rightarrow> Panic p)"
  by (cases "get c") (simp_all add: first_failure_def)

lemma drop_replicate_Suc:
  assumes "drop i xs = replicate (Suc n) v"
  shows "drop (Suc i) xs = replicate n v" "i < length xs" "take i xs @ [w] = take (Suc i) (xs[i := w])"
proof -
  have "drop (Suc i) xs = tl (drop i xs)" by (simp add: drop_Suc tl_drop)
  then show "drop (Suc i) xs = replicate n v" using assms by simp
  show l: "i < length xs"
  proof (rule ccontr)
    assume "\<not> i < length xs"
    then have "drop i xs = []" by simp
    with assms show False by simp
  qed
  show "take i xs @ [w] = take (Suc i) (xs[i := w])"
    using l by (simp add: take_Suc_conv_app_nth)
qed

lemma Setup_admins_eq:
  assumes "drop i (admins msp) = replicate (length cs) NilIdentity"
  shows "Setup_admins env msp i cs =
           (msp\<lparr>admins := take i (admins msp) @ slots (getIdentityFromConf env msp) cs\<rparr>,
            first_failure (getIdentityFromConf env msp) cs)"
  using assms
proof (induction cs arbitrary: msp i)
  case Nil
  then show ?case by (simp add: slots_Nil first_failure_Nil)
next
  case (Cons c cs)
  have "drop i (admins msp) = replicate (Suc (length cs)) NilIdentity"
    using Cons.prems by simp
  note d = drop_replicate_Suc [OF this]
  show ?case
  proof (cases "getIdentityFromConf env msp c")
    case (Ok idv)
    let ?m = "msp\<lparr>admins := (admins msp)[i := idv]\<rparr>"
    have g: "getIdentityFromConf env ?m = getIdentityFromConf env msp"
      by (rule getIdentityFromConf_name) simp
    have "drop (Suc i) (admins ?m) = replicate (length cs) NilIdentity"
      using d(1) by simp
    from Cons.IH [OF this] show ?thesis
      using Ok d(3) [of idv] by (simp add: g slots_Cons first_failure_Cons)
  next
    case (Err e)
    have "take i (admins msp) @ replicate (Suc (length cs)) NilIdentity = admins msp"
      using Cons.prems by (metis append_take_drop_id length_Cons)
    then show ?thesis using Err by (simp add: slots_Cons first_failure_Cons)
  next
    case (Panic p)
    then show ?thesis by (simp add: getIdentityFromConf_not_Panic)
  qed
qed


lemma Setup_trustedCerts_eq:
  assumes "drop i (trustedCerts msp) = replicate (length cs) NilIdentity"
  shows "Setup_trustedCerts env msp i cs =
           (msp\<lparr>trustedCerts :=
                   take i (trustedCerts msp) @ slots (getIdentityFromConf env msp) cs\<rparr>,
            first_failure (getIdentityFromConf env msp) cs)"
  using assms
proof (induction cs arbitrary: msp i)
  case Nil
  then show ?case by (simp add: slots_Nil first_failure_Nil)
next
  case (Cons c cs)
  have "drop i (trustedCerts msp) = replicate (Suc (length cs)) NilIdentity"
    using Cons.prems by simp
  note d = drop_replicate_Suc [OF this]
  show ?case
  proof (cases "getIdentityFromConf env msp c")
    case (Ok idv)
    let ?m = "msp\<lparr>trustedCerts := (trustedCerts msp)[i := idv]\<rparr>"
    have g: "getIdentityFromConf env ?m = getIdentityFromConf env msp"
      by (rule getIdentityFromConf_name) simp
    have "drop (Suc i) (trustedCerts ?m) = replicate (length cs) NilIdentity"
      using d(1) by simp
    from Cons.IH [OF this] show ?thesis
      using Ok d(3) [of idv] by (simp add: g slots_Cons first_failure_Cons)
  next
    case (Err e)
    have "take i (trustedCerts msp) @ replicate (Suc (length cs)) NilIdentity = trustedCerts msp"
      using Cons.prems by (metis append_take_drop_id length_Cons)
    then show ?thesis using Err by (simp add: slots_Cons first_failure_Cons)
  next
    case (Panic p)
    then show ?thesis by (simp add: getIdentityFromConf_not_Panic)
  qed
qed

text \<open>\<^verbatim>\<open>Setup\<close> on a configuration that unmarshals, loop by loop.\<close>
lemma Setup_eq:
  assumes "json_Unmarshal env (Config c1) = Inr conf"
    and "get = getIdentityFromConf env (msp\<lparr>name := Name conf\<rparr>)"
    and "m1 = msp\<lparr>name := Name conf, admins := slots get (Admins conf)\<rparr>"
    and "m2 = m1\<lparr>trustedCerts := slots get (RootCerts conf)\<rparr>"
  shows "Setup env msp (Some c1) =
           (case first_failure get (Admins conf) of
              Err err \<Rightarrow> (m1, Err err)
            | Panic p \<Rightarrow> (m1, Panic p)
            | Ok u \<Rightarrow>
                (case first_failure get (RootCerts conf) of
                   Err err \<Rightarrow> (m2, Err err)
                 | Panic p \<Rightarrow> (m2, Panic p)
                 | Ok u \<Rightarrow> Setup_signer env m2 conf))"
proof -
  let ?a = "msp\<lparr>name := Name conf, admins := replicate (length (Admins conf)) NilIdentity\<rparr>"
  have ga: "getIdentityFromConf env ?a = get"
    unfolding assms(2) by (rule getIdentityFromConf_name) simp
  have a: "Setup_admins env ?a 0 (Admins conf) = (m1, first_failure get (Admins conf))"
    by (simp add: Setup_admins_eq ga assms(3))
  let ?t = "m1\<lparr>trustedCerts := replicate (length (RootCerts conf)) NilIdentity\<rparr>"
  have gt: "getIdentityFromConf env ?t = get"
    unfolding assms(2) by (rule getIdentityFromConf_name) (simp add: assms(3))
  have t: "Setup_trustedCerts env ?t 0 (RootCerts conf) = (m2, first_failure get (RootCerts conf))"
    by (simp add: Setup_trustedCerts_eq gt assms(4))
  show ?thesis
    by (simp add: Setup_def assms(1) a t split: result.split)
qed

lemma first_failure_Ok_iff:
  "first_failure get cs = Ok u \<longleftrightarrow> list_all (\<lambda>c. is_Ok (get c)) cs"
  by (induction cs) (auto simp: first_failure_Nil first_failure_Cons split: result.splits)







section \<open>Identifiers\<close>

text \<open>
  Claim C6, as the code has it. The identifier is deterministic and is not derived from
  the certificate: every identity that \<^verbatim>\<open>getIdentityFromConf\<close> builds is a
  \<^verbatim>\<open>*identity\<close> with the identifier made of the provider's name and the fixed string
  \<^verbatim>\<open>IDENTITY\<close>, and every signing identity that \<^verbatim>\<open>getSigningIdentityFromConf\<close>
  builds has the provider's name and the fixed string \<^verbatim>\<open>DEFAULT\<close>. The same
  certificate bytes give the same identifier, and so do any other certificate bytes.
\<close>
theorem identifiers_are_constant:
  "(getIdentityFromConf env msp c = Ok idv \<longrightarrow>
      (\<exists>i. idv = IdentityRef i \<and> ident i = \<lparr>Mspid = name msp, Id' = ''IDENTITY''\<rparr>)) \<and>
   (getSigningIdentityFromConf env msp si = Ok sid \<longrightarrow>
      ident sid = \<lparr>Mspid = name msp, Id' = ''DEFAULT''\<rparr>)"
proof (intro conjI impI)
  assume "getIdentityFromConf env msp c = Ok idv"
  then show "\<exists>i. idv = IdentityRef i \<and> ident i = \<lparr>Mspid = name msp, Id' = ''IDENTITY''\<rparr>"
    by (rule getIdentityFromConf_Ok)
next
  assume "getSigningIdentityFromConf env msp si = Ok sid"
  then show "ident sid = \<lparr>Mspid = name msp, Id' = ''DEFAULT''\<rparr>"
    by (auto simp: getSigningIdentityFromConf_def newSigningIdentity_def
          split: option.splits result.splits sum.splits)
qed

theorem identifiers_are_constant_witness:
  "getIdentityFromConf test_env theMsp (Some leafPEM) = Ok (IdentityRef (leafIdentity '''')) \<and>
   ident (leafIdentity '''') = \<lparr>Mspid = name theMsp, Id' = ''IDENTITY''\<rparr> \<and>
   getSigningIdentityFromConf test_env (theMsp\<lparr>name := ''org1''\<rparr>) (Some leafSigner)
     = Ok leafSigningIdentity \<and>
   ident leafSigningIdentity = \<lparr>Mspid = ''org1'', Id' = ''DEFAULT''\<rparr>"
proof -
  have a: "getIdentityFromConf test_env theMsp (Some leafPEM) = Ok (IdentityRef (leafIdentity ''''))"
    by (simp add: getIdentityFromConf_def newIdentity_def test_defs theMsp_def
          leafIdentity_def leafCert_def)
  have b: "getSigningIdentityFromConf test_env (theMsp\<lparr>name := ''org1''\<rparr>) (Some leafSigner)
             = Ok leafSigningIdentity"
    by (simp add: getSigningIdentityFromConf_def getIdentityFromConf_def newIdentity_def
          newSigningIdentity_def test_defs theMsp_def leafSigner_def leafSigningIdentity_def
          leafCert_def)
  from identifiers_are_constant
         [of test_env theMsp "Some leafPEM" "IdentityRef (leafIdentity '''')"]
       identifiers_are_constant
         [of test_env "theMsp\<lparr>name := ''org1''\<rparr>" _ _ "Some leafSigner" leafSigningIdentity]
       a b
  show ?thesis by simp
qed

text \<open>
  Claim C6 as stated fails: the root and the leaf are different certificates, and the
  two identities built from them have the same identifier.
\<close>
theorem identifiers_collide_counterexample:
  "getIdentityFromConf test_env theMsp (Some rootPEM) = Ok (IdentityRef (rootIdentity '''')) \<and>
   getIdentityFromConf test_env theMsp (Some leafPEM) = Ok (IdentityRef (leafIdentity '''')) \<and>
   cert (rootIdentity '''') \<noteq> cert (leafIdentity '''') \<and>
   ident (rootIdentity '''') = ident (leafIdentity '''')"
  by (simp add: getIdentityFromConf_def newIdentity_def test_defs theMsp_def
        leafIdentity_def leafCert_def rootIdentity_def rootCert_def)

section \<open>The signing identity factory\<close>

text \<open>
  Claim C2 says that a private key that is not well-formed PEM gives a decoding error.
  The code does not get that far: once the public certificate has given an identity and
  \<^verbatim>\<open>pem.Decode\<close> finds no block in the key material, \<^verbatim>\<open>pemKey\<close> is nil and the read of
  \<^verbatim>\<open>pemKey.Bytes\<close> panics. No error is returned.
\<close>
theorem getSigningIdentityFromConf_nil_deref:
  assumes "getIdentityFromConf env msp (PublicSigner si) = Ok idPub"
    and "pem_Decode env (KeyMaterial (PrivateSigner si)) = None"
  shows "getSigningIdentityFromConf env msp (Some si) = Panic NilPointerDereference"
  using assms by (simp add: getSigningIdentityFromConf_def)

theorem getSigningIdentityFromConf_nil_deref_witness:
  "getSigningIdentityFromConf test_env theMsp
     (Some \<lparr>PublicSigner = Some leafPEM, PrivateSigner = \<lparr>KeyMaterial = badPEM\<rparr>\<rparr>)
   = Panic NilPointerDereference"
proof -
  let ?si = "\<lparr>PublicSigner = Some leafPEM, PrivateSigner = \<lparr>KeyMaterial = badPEM\<rparr>\<rparr>"
  have p: "getIdentityFromConf test_env theMsp (PublicSigner ?si)
             = Ok (IdentityRef (leafIdentity ''''))"
    by (simp add: getIdentityFromConf_def newIdentity_def test_defs theMsp_def
          leafIdentity_def leafCert_def)
  have k: "pem_Decode test_env (KeyMaterial (PrivateSigner ?si)) = None"
    by (simp add: test_defs)
  from getSigningIdentityFromConf_nil_deref [OF p k] show ?thesis .
qed

section \<open>The default signing identity\<close>


lemma slots_all_Ok:
  assumes "list_all (\<lambda>c. is_Ok (getIdentityFromConf env msp c)) cs"
  shows "list_all (\<lambda>v. as_identity v \<noteq> None) (slots (getIdentityFromConf env msp) cs)"
  using assms
proof (induction cs)
  case Nil
  then show ?case by (simp add: slots_Nil)
next
  case (Cons c cs)
  then obtain idv where "getIdentityFromConf env msp c = Ok idv"
    by (cases "getIdentityFromConf env msp c") simp_all
  moreover from this obtain i where "idv = IdentityRef i"
    using getIdentityFromConf_Ok by blast
  ultimately show ?case using Cons by (simp add: slots_Cons)
qed

lemma Setup_signer_keeps:
  "trustedCerts (fst (Setup_signer env msp conf)) = trustedCerts msp"
  "name (fst (Setup_signer env msp conf)) = name msp"
  by (simp_all add: Setup_signer_def split: option.split result.split)

text \<open>After a \<^verbatim>\<open>Setup\<close> that returned nil, the trust store holds identities only.\<close>
lemma Setup_Ok_trust_store_built:
  assumes "Setup env msp0 conf1 = (msp, Ok ())"
  shows "trust_store_built msp"
proof -
  obtain c1 conf where c: "conf1 = Some c1" "json_Unmarshal env (Config c1) = Inr conf"
    using assms by (auto simp: Setup_def split: option.splits sum.splits)
  let ?get = "getIdentityFromConf env (msp0\<lparr>name := Name conf\<rparr>)"
  let ?m1 = "msp0\<lparr>name := Name conf, admins := slots ?get (Admins conf)\<rparr>"
  let ?m2 = "?m1\<lparr>trustedCerts := slots ?get (RootCerts conf)\<rparr>"
  note S = Setup_eq [OF c(2), of ?get msp0 ?m1 ?m2, OF refl refl refl]
  have r: "first_failure ?get (RootCerts conf) = Ok ()"
    and s: "Setup_signer env ?m2 conf = (msp, Ok ())"
    using assms S unfolding c(1) by (auto split: result.splits)
  have "trustedCerts msp = trustedCerts ?m2"
    using Setup_signer_keeps(1) [of env ?m2 conf] s by simp
  moreover have "list_all (\<lambda>v. as_identity v \<noteq> None) (slots ?get (RootCerts conf))"
    using r by (intro slots_all_Ok) (simp add: first_failure_Ok_iff)
  ultimately show ?thesis by (simp add: trust_store_built_def)
qed



section \<open>Signing identities by identifier\<close>

text \<open>
  Claim C10. Whatever the provider holds and whatever the identifier is, nil included,
  \<^verbatim>\<open>GetSigningIdentity\<close> returns neither a signing identity nor an error. Nothing is
  looked up, so the identifier of the default signing identity finds nothing either.
\<close>
theorem GetSigningIdentity_nil_nil:
  "GetSigningIdentity msp identifier = (None, None)"
  by (simp add: GetSigningIdentity_def)

section \<open>Validate\<close>

text \<open>
  Claim C8. An identity that is not a \<^verbatim>\<open>*identity\<close> (the nil interface, a signing
  identity, an implementation from elsewhere) is refused with \<^emph>\<open>Identity type not
  recognized\<close>, for every provider and so whatever the trust store holds: the trust store
  is not read.
\<close>
theorem Validate_type_not_recognized:
  assumes "as_identity idv = None"
  shows "Validate env now msp idv = Err IdentityTypeNotRecognized"
  using assms by (cases idv) (simp_all add: Validate_def)

text \<open>A signing identity, on a trust store whose only entry is nil.\<close>
theorem Validate_type_not_recognized_witness:
  "as_identity (SigningIdentityRef leafSigningIdentity) = None \<and>
   Validate test_env 50 \<lparr>trustedCerts = [NilIdentity], signer = None, admins = [], name = ''org1''\<rparr>
     (SigningIdentityRef leafSigningIdentity) = Err IdentityTypeNotRecognized"
proof -
  have h: "as_identity (SigningIdentityRef leafSigningIdentity) = None" by simp
  from h Validate_type_not_recognized [OF h] show ?thesis by simp
qed








section \<open>DeserializeIdentity\<close>

text \<open>
  Claim C5. When the ASN.1 decoder rejects the empty input, \<^verbatim>\<open>DeserializeIdentity\<close> of
  the empty input fails with the decoding error \<^emph>\<open>Could not deserialize a
  SerializedIdentity\<close>. When the envelope and the PEM block in it decode and the payload
  of the block does not parse as a certificate, it fails with the parse error
  \<^emph>\<open>ParseCertificate failed\<close>.
\<close>
theorem DeserializeIdentity_errors:
  "(asn1_Unmarshal env [] = Inl err \<longrightarrow>
      DeserializeIdentity env msp [] = Err (CouldNotDeserialize err)) \<and>
   (asn1_Unmarshal env b = Inr (sId, rest) \<and> pem_Decode env (IdBytes sId) = Some bl \<and>
    x509_ParseCertificate env (Bytes bl) = Inl err' \<longrightarrow>
      DeserializeIdentity env msp b = Err (ParseCertificateFailed err'))"
  by (simp add: DeserializeIdentity_def)

theorem DeserializeIdentity_errors_witness:
  "DeserializeIdentity test_env theMsp [] = Err (CouldNotDeserialize ''asn1: syntax error'') \<and>
   DeserializeIdentity test_env theMsp [0x30, 0, 0x2D, 1, 2]
     = Err (ParseCertificateFailed ''asn1: syntax error'')"
proof -
  let ?sId = "\<lparr>ProviderId = [], IdBytes = [0x2D, 1, 2]\<rparr>"
  let ?bl = "\<lparr>Type = ''CERTIFICATE'', Bytes = [1, 2]\<rparr>"
  have e: "asn1_Unmarshal test_env [] = Inl ''asn1: syntax error''"
    by (simp add: test_env_def test_asn1_Unmarshal_def)
  have u: "asn1_Unmarshal test_env [0x30, 0, 0x2D, 1, 2] = Inr (?sId, [])"
    by (simp add: test_env_def test_asn1_Unmarshal_def)
  have d: "pem_Decode test_env (IdBytes ?sId) = Some ?bl"
    by (simp add: test_env_def test_pem_Decode_def)
  have p: "x509_ParseCertificate test_env (Bytes ?bl) = Inl ''asn1: syntax error''"
    by (simp add: test_env_def test_ParseCertificate_def)
  note T = DeserializeIdentity_errors
             [of test_env "''asn1: syntax error''" theMsp "[0x30, 0, 0x2D, 1, 2]" ?sId "[]" ?bl
                 "''asn1: syntax error''"]
  from conjunct1 [OF T, THEN mp, OF e] conjunct2 [OF T, THEN mp, OF conjI [OF u conjI [OF d p]]]
  show ?thesis by (rule conjI)
qed

text \<open>
  Claim C9. For an envelope that decodes and whose certificate is in well-formed PEM,
  parses and has a public key that the crypto provider imports,
  \<^verbatim>\<open>DeserializeIdentity\<close> succeeds, and an envelope that differs in the provider
  identifier alone gives the same result. The identifier of the envelope is not compared
  with the provider's own name; the identity carries the provider's name.
\<close>
theorem DeserializeIdentity_ignores_ProviderId:
  assumes "asn1_Unmarshal env b = Inr (sId, rest)"
    and "asn1_Unmarshal env b' = Inr (sId\<lparr>ProviderId := p\<rparr>, rest')"
    and "pem_Decode env (IdBytes sId) = Some bl"
    and "x509_ParseCertificate env (Bytes bl) = Inr c"
    and "KeyImport env (RawCert c) (X509PublicKeyImportOpts True) = Inr pub"
  shows "DeserializeIdentity env msp b
           = Ok (newIdentity \<lparr>Mspid = name msp, Id' = ''DEFAULT''\<rparr> c pub) \<and>
         DeserializeIdentity env msp b' = DeserializeIdentity env msp b"
  using assms by (simp add: DeserializeIdentity_def)

theorem DeserializeIdentity_ignores_ProviderId_witness:
  "DeserializeIdentity test_env (theMsp\<lparr>name := ''org1''\<rparr>)
     (test_asn1_Marshal \<lparr>ProviderId = ''org1'', IdBytes = leafPEM\<rparr>)
     = Ok (newIdentity \<lparr>Mspid = ''org1'', Id' = ''DEFAULT''\<rparr> leafCert (KeyHandle [2])) \<and>
   DeserializeIdentity test_env (theMsp\<lparr>name := ''org1''\<rparr>)
     (test_asn1_Marshal \<lparr>ProviderId = ''org2'', IdBytes = leafPEM\<rparr>)
     = DeserializeIdentity test_env (theMsp\<lparr>name := ''org1''\<rparr>)
         (test_asn1_Marshal \<lparr>ProviderId = ''org1'', IdBytes = leafPEM\<rparr>)"
proof -
  let ?s = "\<lparr>ProviderId = ''org1'', IdBytes = leafPEM\<rparr>"
  let ?bl = "\<lparr>Type = ''CERTIFICATE'', Bytes = leafDER\<rparr>"
  have u: "asn1_Unmarshal test_env (test_asn1_Marshal ?s) = Inr (?s, [])"
    unfolding test_env_def by code_simp
  have u': "asn1_Unmarshal test_env (test_asn1_Marshal \<lparr>ProviderId = ''org2'', IdBytes = leafPEM\<rparr>)
              = Inr (?s\<lparr>ProviderId := ''org2''\<rparr>, [])"
    unfolding test_env_def by code_simp
  have d: "pem_Decode test_env (IdBytes ?s) = Some ?bl"
    by (simp add: test_env_def test_pem_Decode_def leafPEM_def)
  have c: "x509_ParseCertificate test_env (Bytes ?bl) = Inr leafCert"
    by (simp add: test_env_def test_ParseCertificate_def leafDER_def leafCert_def)
  have k: "KeyImport test_env (RawCert leafCert) (X509PublicKeyImportOpts True)
             = Inr (KeyHandle [2])"
    by (simp add: test_env_def test_KeyImport_def leafCert_def)
  from DeserializeIdentity_ignores_ProviderId
         [OF u u' d c k, of "theMsp\<lparr>name := ''org1''\<rparr>"]
  show ?thesis by simp
qed

text \<open>
  Claim C4. Let \<open>C\<close> be PEM bytes from which the provider builds an identity, and let the
  codecs invert each other on the bytes at hand (ASN.1 on the envelope, PEM on the DER
  bytes, the parser keeping the DER bytes in \<^verbatim>\<open>Raw\<close>). Then deserializing the
  serialized identity, by any provider, gives an identity whose certificate bytes are
  the DER bytes of \<open>C\<close>.
\<close>
theorem Serialize_roundtrip:
  assumes "getIdentityFromConf env msp (Some C) = Ok idv"
    and "pem_Decode env C = Some blk"
    and "parse_keeps_Raw env (Bytes blk)"
    and "pem_roundtrip env \<lparr>Type = ''CERTIFICATE'', Bytes = Bytes blk\<rparr>"
    and "asn1_roundtrip env
           \<lparr>ProviderId = name msp,
            IdBytes = pem_EncodeToMemory env \<lparr>Type = ''CERTIFICATE'', Bytes = Bytes blk\<rparr>\<rparr>"
  shows "\<exists>i j. idv = IdentityRef i \<and>
           DeserializeIdentity env msp' (Serialize env i) = Ok (IdentityRef j) \<and>
           Raw (cert j) = Bytes blk"
proof -
  let ?pem = "pem_EncodeToMemory env \<lparr>Type = ''CERTIFICATE'', Bytes = Bytes blk\<rparr>"
  let ?s = "\<lparr>ProviderId = name msp, IdBytes = ?pem\<rparr>"
  from assms(1,2) obtain c k where c: "x509_ParseCertificate env (Bytes blk) = Inr c"
    and k: "KeyImport env (RawCert c) (X509PublicKeyImportOpts True) = Inr k"
    and i: "idv = IdentityRef \<lparr>ident = \<lparr>Mspid = name msp, Id' = ''IDENTITY''\<rparr>, cert = c, pk = k\<rparr>"
    by (auto simp: getIdentityFromConf_def newIdentity_def split: sum.splits)
  let ?i = "\<lparr>ident = \<lparr>Mspid = name msp, Id' = ''IDENTITY''\<rparr>, cert = c, pk = k\<rparr>"
  have raw: "Raw c = Bytes blk"
    using assms(3) c by (simp add: parse_keeps_Raw_def)
  have ser: "Serialize env ?i = asn1_Marshal env ?s"
    by (simp add: Serialize_def raw)
  obtain rest where u: "asn1_Unmarshal env (asn1_Marshal env ?s) = Inr (?s, rest)"
    using assms(5) by (auto simp: asn1_roundtrip_def split: sum.splits)
  obtain b where d: "pem_Decode env ?pem = Some b" and bb: "Bytes b = Bytes blk"
    using assms(4) by (auto simp: pem_roundtrip_def split: option.splits)
  have "DeserializeIdentity env msp' (Serialize env ?i)
          = Ok (IdentityRef \<lparr>ident = \<lparr>Mspid = name msp', Id' = ''DEFAULT''\<rparr>, cert = c, pk = k\<rparr>)"
    by (simp add: DeserializeIdentity_def ser u d bb c k newIdentity_def)
  with i raw show ?thesis by auto
qed

theorem Serialize_roundtrip_witness:
  "getIdentityFromConf test_env (theMsp\<lparr>name := ''org1''\<rparr>) (Some leafPEM)
     = Ok (IdentityRef (leafIdentity ''org1'')) \<and>
   DeserializeIdentity test_env theMsp (Serialize test_env (leafIdentity ''org1''))
     = Ok (IdentityRef ((leafIdentity '''')\<lparr>ident := \<lparr>Mspid = '''', Id' = ''DEFAULT''\<rparr>\<rparr>)) \<and>
   Raw leafCert = leafDER"
proof -
  let ?m = "theMsp\<lparr>name := ''org1''\<rparr>"
  let ?blk = "\<lparr>Type = ''CERTIFICATE'', Bytes = leafDER\<rparr>"
  have g: "getIdentityFromConf test_env ?m (Some leafPEM) = Ok (IdentityRef (leafIdentity ''org1''))"
    by (simp add: getIdentityFromConf_def newIdentity_def test_defs theMsp_def
          leafIdentity_def leafCert_def)
  have d: "pem_Decode test_env leafPEM = Some ?blk"
    by (simp add: test_env_def test_pem_Decode_def leafPEM_def)
  have r: "parse_keeps_Raw test_env (Bytes ?blk)"
    by (simp add: parse_keeps_Raw_def test_env_def test_ParseCertificate_def leafDER_def)
  have p: "pem_roundtrip test_env \<lparr>Type = ''CERTIFICATE'', Bytes = Bytes ?blk\<rparr>"
    by (simp add: pem_roundtrip_def test_env_def test_pem_Decode_def test_pem_EncodeToMemory_def)
  have a: "asn1_roundtrip test_env
             \<lparr>ProviderId = name ?m,
              IdBytes = pem_EncodeToMemory test_env \<lparr>Type = ''CERTIFICATE'', Bytes = Bytes ?blk\<rparr>\<rparr>"
    unfolding test_env_def theMsp_def by code_simp
  from Serialize_roundtrip [OF g d r p a, of theMsp]
  obtain i j where ij: "IdentityRef (leafIdentity ''org1'') = IdentityRef i \<and>
      DeserializeIdentity test_env theMsp (Serialize test_env i) = Ok (IdentityRef j) \<and>
      Raw (cert j) = Bytes ?blk"
    by (elim exE)
  from ij have i: "i = leafIdentity ''org1''"
    by simp
  from ij have j: "DeserializeIdentity test_env theMsp (Serialize test_env i) = Ok (IdentityRef j)"
    and rj: "Raw (cert j) = leafDER"
    by simp_all
  have s: "DeserializeIdentity test_env theMsp (Serialize test_env (leafIdentity ''org1''))
     = Ok (IdentityRef ((leafIdentity '''')\<lparr>ident := \<lparr>Mspid = '''', Id' = ''DEFAULT''\<rparr>\<rparr>))"
    unfolding test_env_def theMsp_def by code_simp
  from j s have "j = (leafIdentity '''')\<lparr>ident := \<lparr>Mspid = '''', Id' = ''DEFAULT''\<rparr>\<rparr>"
    unfolding i by simp
  with rj have "Raw leafCert = leafDER"
    by (simp add: leafIdentity_def)
  with g s show ?thesis by (intro conjI)
qed

end
